theory Spec2Isabelle
  imports Complex_Main "HOL-Library.Sublist"
begin

section \<open>JavaScript values used by App.tsx\<close>

text \<open>
  The component is TypeScript; its numbers are JavaScript Number values. A Number is
  modelled as NaN, one of the two infinities, or a finite value carried as an exact
  rational. Binary64 rounding, overflow to an infinity, underflow to zero and the sign
  of zero are not modelled: a decimal literal such as \<open>0.3\<close> denotes the rational 3/10,
  and \<open>*\<close> on finite values is exact.
\<close>

datatype jsnum = NaN | Infinity | NegInfinity | Fin rat

text \<open>The global \<open>isNaN\<close> and \<open>isFinite\<close> on a Number.\<close>

definition isNaN :: "jsnum \<Rightarrow> bool" where
  "isNaN x = (x = NaN)"

fun isFinite :: "jsnum \<Rightarrow> bool" where
  "isFinite (Fin _) = True"
| "isFinite _ = False"

text \<open>The relational operators: every comparison with NaN is false.\<close>

fun js_lt :: "jsnum \<Rightarrow> jsnum \<Rightarrow> bool" where
  "js_lt NaN _ = False"
| "js_lt _ NaN = False"
| "js_lt (Fin a) (Fin b) = (a < b)"
| "js_lt (Fin _) Infinity = True"
| "js_lt NegInfinity (Fin _) = True"
| "js_lt NegInfinity Infinity = True"
| "js_lt _ _ = False"

definition js_gt :: "jsnum \<Rightarrow> jsnum \<Rightarrow> bool" where
  "js_gt a b = js_lt b a"

definition js_le :: "jsnum \<Rightarrow> jsnum \<Rightarrow> bool" where
  "js_le a b = (\<not> isNaN a \<and> \<not> isNaN b \<and> \<not> js_lt b a)"

definition js_ge :: "jsnum \<Rightarrow> jsnum \<Rightarrow> bool" where
  "js_ge a b = js_le b a"

text \<open>The operator \<open>*\<close> on Numbers: NaN is absorbing, and infinity times zero is NaN.\<close>

fun js_mul :: "jsnum \<Rightarrow> jsnum \<Rightarrow> jsnum" where
  "js_mul NaN _ = NaN"
| "js_mul _ NaN = NaN"
| "js_mul (Fin a) (Fin b) = Fin (a * b)"
| "js_mul (Fin a) Infinity = (if a = 0 then NaN else if 0 < a then Infinity else NegInfinity)"
| "js_mul (Fin a) NegInfinity = (if a = 0 then NaN else if 0 < a then NegInfinity else Infinity)"
| "js_mul Infinity (Fin b) = (if b = 0 then NaN else if 0 < b then Infinity else NegInfinity)"
| "js_mul NegInfinity (Fin b) = (if b = 0 then NaN else if 0 < b then NegInfinity else Infinity)"
| "js_mul Infinity Infinity = Infinity"
| "js_mul NegInfinity NegInfinity = Infinity"
| "js_mul Infinity NegInfinity = NegInfinity"
| "js_mul NegInfinity Infinity = NegInfinity"

subsection \<open>Strings\<close>

text \<open>
  A string is a list of characters, one \<open>char\<close> per code unit in the range 0 to 255.
  White space, as \<open>String.prototype.trim\<close> and \<open>parseFloat\<close> strip it, is WhiteSpace
  or LineTerminator; in this range these are TAB, LF, VT, FF, CR, SP and NBSP.
\<close>

definition is_ws :: "char \<Rightarrow> bool" where
  "is_ws c = ((of_char c :: nat) \<in> {9, 10, 11, 12, 13, 32, 160})"

definition is_digit :: "char \<Rightarrow> bool" where
  "is_digit c = (48 \<le> (of_char c :: nat) \<and> (of_char c :: nat) \<le> 57)"

definition trimStart :: "string \<Rightarrow> string" where
  "trimStart s = dropWhile is_ws s"

fun trimEnd :: "string \<Rightarrow> string" where
  "trimEnd [] = []"
| "trimEnd (c # cs) = (let r = trimEnd cs in if r = [] \<and> is_ws c then [] else c # r)"

definition trim :: "string \<Rightarrow> string" where
  "trim s = trimEnd (trimStart s)"

text \<open>
  \<open>s.split(',')\<close>: the pieces between the commas; the empty string gives one empty piece.
\<close>

fun split_comma :: "string \<Rightarrow> string list" where
  "split_comma [] = [[]]"
| "split_comma (c # cs) =
     (if c = CHR '','' then [] # split_comma cs
      else (case split_comma cs of [] \<Rightarrow> [[c]] | t # ts \<Rightarrow> (c # t) # ts))"

text \<open>
  Number to string for a non-negative integer (an array length, an HTTP status): its
  decimal digits.
\<close>

definition digit_char :: "nat \<Rightarrow> char" where
  "digit_char d = ''0123456789'' ! d"

fun nat_toString :: "nat \<Rightarrow> string" where
  "nat_toString n = (if n < 10 then [digit_char n] else nat_toString (n div 10) @ [digit_char (n mod 10)])"

declare nat_toString.simps [simp del]

subsection \<open>parseFloat\<close>

text \<open>
  \<open>parseFloat\<close> skips leading white space and reads the longest prefix that is a
  StrDecimalLiteral: an optional sign, then \<open>Infinity\<close> or decimal digits with an
  optional fraction and an optional exponent. With no such prefix the result is NaN.
\<close>

definition digits_value :: "string \<Rightarrow> nat" where
  "digits_value ds = foldl (\<lambda>n c. 10 * n + ((of_char c :: nat) - 48)) 0 ds"

text \<open>
  The value of the ExponentPart at the head of a string, or 0 when there is none: an
  \<open>e\<close> or \<open>E\<close>, an optional sign and at least one digit.
\<close>

definition exponent_part :: "string \<Rightarrow> int" where
  "exponent_part s =
     (case s of
        [] \<Rightarrow> 0
      | c # cs \<Rightarrow>
          if c = CHR ''e'' \<or> c = CHR ''E'' then
            (case cs of
               [] \<Rightarrow> 0
             | d # ds \<Rightarrow>
                 if d = CHR ''+'' then
                   (if takeWhile is_digit ds = [] then 0 else int (digits_value (takeWhile is_digit ds)))
                 else if d = CHR ''-'' then
                   (if takeWhile is_digit ds = [] then 0 else - int (digits_value (takeWhile is_digit ds)))
                 else
                   (if takeWhile is_digit cs = [] then 0 else int (digits_value (takeWhile is_digit cs))))
          else 0)"

definition scale10 :: "rat \<Rightarrow> int \<Rightarrow> rat" where
  "scale10 m e = (if 0 \<le> e then m * 10 ^ nat e else m / 10 ^ nat (- e))"

definition parseFloat :: "string \<Rightarrow> jsnum" where
  "parseFloat inputString =
     (let trimmedString = trimStart inputString;
          negative = (case trimmedString of [] \<Rightarrow> False | c # _ \<Rightarrow> c = CHR ''-'');
          unsigned = (case trimmedString of
                        [] \<Rightarrow> []
                      | c # cs \<Rightarrow> if c = CHR ''-'' \<or> c = CHR ''+'' then cs else trimmedString)
      in if prefix ''Infinity'' unsigned then (if negative then NegInfinity else Infinity)
         else
           let intPart = takeWhile is_digit unsigned;
               afterInt = dropWhile is_digit unsigned;
               hasDot = (case afterInt of [] \<Rightarrow> False | c # _ \<Rightarrow> c = CHR ''.'');
               fracPart = (if hasDot then takeWhile is_digit (tl afterInt) else []);
               afterFrac = (if hasDot then dropWhile is_digit (tl afterInt) else afterInt)
           in if intPart = [] \<and> fracPart = [] then NaN
              else
                let mv = scale10 (of_nat (digits_value (intPart @ fracPart)))
                           (exponent_part afterFrac - int (length fracPart))
                in Fin (if negative then - mv else mv))"

section \<open>parseFeatures\<close>

text \<open>
  A thrown value is an \<open>Error\<close> object with its message, or some value that is not an
  \<open>Error\<close>. A computation that may throw returns a sum, \<open>Inl\<close> the thrown value.
\<close>

datatype js_thrown = Error_obj string | Non_error

text \<open>The callback of \<open>map\<close> in \<open>parseFeatures\<close>.\<close>

definition parse_item :: "string \<Rightarrow> js_thrown + jsnum" where
  "parse_item item =
     (let num = parseFloat (trim item)
      in if isNaN num then Inl (Error_obj (''Invalid number: '' @ trim item)) else Inr num)"

text \<open>\<open>Array.prototype.map\<close> with a callback that may throw: the first throw ends it.\<close>

fun map_throwing :: "('a \<Rightarrow> js_thrown + 'b) \<Rightarrow> 'a list \<Rightarrow> js_thrown + 'b list" where
  "map_throwing f [] = Inr []"
| "map_throwing f (x # xs) =
     (case f x of
        Inl e \<Rightarrow> Inl e
      | Inr y \<Rightarrow> (case map_throwing f xs of Inl e \<Rightarrow> Inl e | Inr ys \<Rightarrow> Inr (y # ys)))"

text \<open>The \<open>try\<close> block of \<open>parseFeatures\<close>; \<open>Inr None\<close> is the returned \<open>null\<close>.\<close>

definition parseFeatures_try :: "string \<Rightarrow> js_thrown + jsnum list option" where
  "parseFeatures_try inputText =
     (let trimmed = trim inputText
      in if trimmed = [] then Inr None
         else
           (case map_throwing parse_item (split_comma trimmed) of
              Inl e \<Rightarrow> Inl e
            | Inr numbers \<Rightarrow>
                if length numbers \<noteq> 46
                then Inl (Error_obj (''Expected 46 features, but got '' @ nat_toString (length numbers)))
                else Inr (Some numbers)))"

text \<open>The whole function: the \<open>catch\<close> clause rethrows an \<open>Error\<close> with the same message.\<close>

definition parseFeatures :: "string \<Rightarrow> js_thrown + jsnum list option" where
  "parseFeatures inputText =
     (case parseFeatures_try inputText of
        Inl err \<Rightarrow>
          Inl (Error_obj (case err of Error_obj message \<Rightarrow> message | Non_error \<Rightarrow> ''Invalid input format''))
      | Inr v \<Rightarrow> Inr v)"

section \<open>handlePredict\<close>

text \<open>
  What the host decides and the model leaves open: the text \<open>Number::toString\<close> gives
  for a finite Number that is not an integer below \<open>10^21\<close>, which depends on binary64
  digits, and the message of the \<open>TypeError\<close> raised by reading a property of \<open>null\<close>,
  which differs between engines.
\<close>

record host =
  Number_toString :: "rat \<Rightarrow> string"
  null_property_message :: string

text \<open>
  \<open>Number::toString\<close> on a finite value: an integer of magnitude below \<open>10^21\<close> gives
  its decimal digits, after a minus sign when it is negative.
\<close>

definition Number_text :: "host \<Rightarrow> rat \<Rightarrow> string" where
  "Number_text h x =
     (if of_int \<lfloor>x\<rfloor> = x \<and> \<bar>x\<bar> < 10 ^ 21
      then (if x < 0 then ''-'' else []) @ nat_toString (nat \<lfloor>\<bar>x\<bar>\<rfloor>)
      else Number_toString h x)"

text \<open>
  A value produced by \<open>response.json()\<close>. An object is the list of its properties, every
  key once.
\<close>

datatype json =
    JNull
  | JBool bool
  | JNumber rat
  | JString string
  | JArray "json list"
  | JObject "(string \<times> json) list"

text \<open>
  \<open>errorData.detail\<close>: reading a property of \<open>null\<close> throws a \<open>TypeError\<close>; an object
  gives the property or \<open>undefined\<close> (\<open>None\<close>); every other value has no such property.
\<close>

fun get_detail :: "host \<Rightarrow> json \<Rightarrow> js_thrown + json option" where
  "get_detail h JNull = Inl (Error_obj (null_property_message h))"
| "get_detail h (JObject props) = Inr (map_of props ''detail'')"
| "get_detail h _ = Inr None"

text \<open>ToBoolean, as the operator \<open>||\<close> applies it to its left operand.\<close>

fun truthy :: "json \<Rightarrow> bool" where
  "truthy JNull = False"
| "truthy (JBool b) = b"
| "truthy (JNumber n) = (n \<noteq> 0)"
| "truthy (JString s) = (s \<noteq> [])"
| "truthy (JArray _) = True"
| "truthy (JObject _) = True"

text \<open>
  ToString, as \<open>new Error(message)\<close> applies it: an array joins its elements with commas,
  \<open>null\<close> elements as empty strings; an object is \<open>[object Object]\<close>.
\<close>

fun join_comma :: "string list \<Rightarrow> string" where
  "join_comma [] = []"
| "join_comma [x] = x"
| "join_comma (x # y # ys) = x @ '','' @ join_comma (y # ys)"

fun ToString :: "host \<Rightarrow> json \<Rightarrow> string" where
  "ToString h JNull = ''null''"
| "ToString h (JBool b) = (if b then ''true'' else ''false'')"
| "ToString h (JNumber n) = Number_text h n"
| "ToString h (JString s) = s"
| "ToString h (JArray xs) = join_comma (map (\<lambda>x. if x = JNull then [] else ToString h x) xs)"
| "ToString h (JObject _) = ''[object Object]''"

text \<open>
  The message of \<open>new Error(errorData.detail || fallback)\<close>: \<open>undefined\<close> and every falsy
  value give the fallback, a truthy value its string.
\<close>

definition detail_or :: "host \<Rightarrow> json option \<Rightarrow> string \<Rightarrow> string" where
  "detail_or h detail fallback =
     (case detail of
        None \<Rightarrow> fallback
      | Some d \<Rightarrow> if truthy d then ToString h d else fallback)"

text \<open>
  The interface \<open>PredictionResult\<close> is erased when the component runs, so the state
  \<open>result\<close> holds whatever value it was given; \<open>JNull\<close> is its \<open>null\<close>. A value that does
  have the shape of the interface is an object with the two numbers.
\<close>

definition PredictionResult :: "rat \<Rightarrow> rat \<Rightarrow> json" where
  "PredictionResult p d = JObject [(''prediction'', JNumber p), (''default_probability'', JNumber d)]"

text \<open>
  The response of the prediction service: with \<open>response.ok\<close>, or without it and then
  with its status and status text. Either way \<open>response.json()\<close> gives any JSON value,
  or throws (\<open>Inl\<close>). The promise of \<open>fetch\<close> itself is rejected or resolved.
\<close>

datatype response =
    Ok_response "js_thrown + json"
  | Failed_response nat string "js_thrown + json"

datatype fetch_outcome = Rejected js_thrown | Resolved response

text \<open>
  The calls \<open>handlePredict\<close> makes, in program order: the three state setters and the
  request, which carries the features that \<open>JSON.stringify\<close> puts in its body.
\<close>

datatype action =
    SetError "string option"
  | SetResult json
  | SetLoading bool
  | Fetch string "jsnum list"

definition predict_url :: string where
  "predict_url = ''https://ai-financial-risk-analyzer.onrender.com/predict''"

text \<open>
  The \<open>try\<close> block: the calls it makes and the value it throws, if any. The answer of the
  network is a parameter, read only once the request has been issued.
\<close>

definition handlePredict_try :: "host \<Rightarrow> string \<Rightarrow> fetch_outcome \<Rightarrow> action list \<times> js_thrown option" where
  "handlePredict_try h input net =
     (case parseFeatures input of
        Inl err \<Rightarrow> ([], Some err)
      | Inr None \<Rightarrow> ([SetError (Some ''Please enter exactly 46 comma-separated numbers'')], None)
      | Inr (Some features) \<Rightarrow>
          (case net of
             Rejected err \<Rightarrow> ([SetLoading True, Fetch predict_url features], Some err)
           | Resolved (Failed_response status statusText body) \<Rightarrow>
               ([SetLoading True, Fetch predict_url features],
                (case body of
                   Inl err \<Rightarrow> Some err
                 | Inr errorData \<Rightarrow>
                     (case get_detail h errorData of
                        Inl err \<Rightarrow> Some err
                      | Inr detail \<Rightarrow>
                          Some (Error_obj
                            (detail_or h detail
                               (''HTTP '' @ nat_toString status @ '': '' @ statusText))))))
           | Resolved (Ok_response body) \<Rightarrow>
               (case body of
                  Inl err \<Rightarrow> ([SetLoading True, Fetch predict_url features], Some err)
                | Inr data \<Rightarrow>
                    ([SetLoading True, Fetch predict_url features, SetResult data], None))))"

text \<open>The whole function: the two resets, the \<open>try\<close> block, \<open>catch\<close> and \<open>finally\<close>.\<close>

definition handlePredict :: "host \<Rightarrow> string \<Rightarrow> fetch_outcome \<Rightarrow> action list" where
  "handlePredict h input net =
     [SetError None, SetResult JNull] @
     (case handlePredict_try h input net of
        (calls, None) \<Rightarrow> calls
      | (calls, Some err) \<Rightarrow>
          calls @ [SetError (Some (case err of Error_obj message \<Rightarrow> message
                                             | Non_error \<Rightarrow> ''An unexpected error occurred''))]) @
     [SetLoading False]"

subsection \<open>The component state\<close>

record ui_state =
  loading :: bool
  result :: json
  error :: "string option"

fun apply_action :: "ui_state \<Rightarrow> action \<Rightarrow> ui_state" where
  "apply_action s (SetError e) = s\<lparr>error := e\<rparr>"
| "apply_action s (SetResult r) = s\<lparr>result := r\<rparr>"
| "apply_action s (SetLoading b) = s\<lparr>loading := b\<rparr>"
| "apply_action s (Fetch _ _) = s"

text \<open>The states the component goes through, the starting state first.\<close>

fun states_of :: "ui_state \<Rightarrow> action list \<Rightarrow> ui_state list" where
  "states_of s [] = [s]"
| "states_of s (a # as) = s # states_of (apply_action s a) as"

definition final_state :: "ui_state \<Rightarrow> action list \<Rightarrow> ui_state" where
  "final_state s as = foldl apply_action s as"

definition is_fetch :: "action \<Rightarrow> bool" where
  "is_fetch a = (case a of Fetch _ _ \<Rightarrow> True | _ \<Rightarrow> False)"

section \<open>Rendering a result\<close>

record risk_level =
  level :: string
  color :: string
  bgColor :: string
  borderColor :: string

definition getRiskLevel :: "jsnum \<Rightarrow> risk_level" where
  "getRiskLevel probability =
     (if js_lt probability (Fin (3 / 10)) then
        \<lparr>level = ''Low'', color = ''text-emerald-600'', bgColor = ''bg-emerald-50'',
         borderColor = ''border-emerald-200''\<rparr>
      else if js_lt probability (Fin (7 / 10)) then
        \<lparr>level = ''Medium'', color = ''text-amber-600'', bgColor = ''bg-amber-50'',
         borderColor = ''border-amber-200''\<rparr>
      else
        \<lparr>level = ''High'', color = ''text-red-600'', bgColor = ''bg-red-50'',
         borderColor = ''border-red-200''\<rparr>)"

text \<open>The gradient of the risk bar, the conditional inside its \<open>className\<close>.\<close>

definition risk_bar_gradient :: "jsnum \<Rightarrow> string" where
  "risk_bar_gradient probability =
     (if js_gt probability (Fin (7 / 10)) then ''bg-gradient-to-r from-red-500 to-red-600''
      else if js_gt probability (Fin (3 / 10)) then ''bg-gradient-to-r from-amber-500 to-amber-600''
      else ''bg-gradient-to-r from-emerald-500 to-emerald-600'')"

text \<open>
  \<open>Number.prototype.toFixed\<close>: a Number that is not finite gives its name; a magnitude of
  at least \<open>10^21\<close> goes to \<open>Number::toString\<close>; otherwise the digits are those of the integer
  \<open>n\<close> nearest to \<open>x * 10^f\<close>, the larger one on a tie, padded with zeros to \<open>f + 1\<close> digits
  and with the point before the last \<open>f\<close>.
\<close>

definition toFixed :: "host \<Rightarrow> jsnum \<Rightarrow> nat \<Rightarrow> string" where
  "toFixed h num f =
     (case num of
        NaN \<Rightarrow> ''NaN''
      | Infinity \<Rightarrow> ''Infinity''
      | NegInfinity \<Rightarrow> ''-Infinity''
      | Fin v \<Rightarrow>
          let s = (if v < 0 then ''-'' else []);
              x = \<bar>v\<bar>
          in if 10 ^ 21 \<le> x then s @ Number_text h x
             else
               let n = nat \<lfloor>x * 10 ^ f + 1 / 2\<rfloor>;
                   digits = nat_toString n;
                   m = replicate (f + 1 - length digits) (CHR ''0'') @ digits;
                   k = length m
               in if f = 0 then s @ m
                  else s @ take (k - f) m @ ''.'' @ drop (k - f) m)"

text \<open>
  \<open>result.prediction\<close> and \<open>result.default_probability\<close>, read only where \<open>result\<close> is
  truthy: an object gives the property or \<open>undefined\<close> (\<open>None\<close>), and no other truthy
  value has a property of either name.
\<close>

fun get_field :: "json \<Rightarrow> string \<Rightarrow> json option" where
  "get_field (JObject props) key = map_of props key"
| "get_field _ key = None"

text \<open>
  ToNumber, which \<open>*\<close>, \<open><\<close> and \<open>>\<close> apply to an operand that is not a Number. A string
  is trimmed and read as a whole: empty it is 0, a StrDecimalLiteral or a hexadecimal,
  octal or binary integer literal its value, anything else NaN. An array or an object
  goes through its string.
\<close>

definition hex_value :: "char \<Rightarrow> nat option" where
  "hex_value c =
     (let n = (of_char c :: nat)
      in if 48 \<le> n \<and> n \<le> 57 then Some (n - 48)
         else if 97 \<le> n \<and> n \<le> 102 then Some (n - 87)
         else if 65 \<le> n \<and> n \<le> 70 then Some (n - 55)
         else None)"

fun radix_digits :: "nat \<Rightarrow> nat \<Rightarrow> string \<Rightarrow> nat option" where
  "radix_digits b acc [] = Some acc"
| "radix_digits b acc (c # cs) =
     (case hex_value c of
        None \<Rightarrow> None
      | Some d \<Rightarrow> if d < b then radix_digits b (b * acc + d) cs else None)"

definition NonDecimalIntegerLiteral :: "string \<Rightarrow> nat option" where
  "NonDecimalIntegerLiteral t =
     (case t of
        z # x # d # ds \<Rightarrow>
          if z \<noteq> CHR ''0'' then None
          else if x = CHR ''x'' \<or> x = CHR ''X'' then radix_digits 16 0 (d # ds)
          else if x = CHR ''o'' \<or> x = CHR ''O'' then radix_digits 8 0 (d # ds)
          else if x = CHR ''b'' \<or> x = CHR ''B'' then radix_digits 2 0 (d # ds)
          else None
      | _ \<Rightarrow> None)"

text \<open>
  What follows the ExponentPart at the head of a string, the string itself when there
  is none; and what follows the longest StrDecimalLiteral at the head of a string, the
  string itself when there is none. They cut where \<open>exponent_part\<close> and \<open>parseFloat\<close> stop
  reading.
\<close>

definition exponent_rest :: "string \<Rightarrow> string" where
  "exponent_rest s =
     (case s of
        [] \<Rightarrow> []
      | c # cs \<Rightarrow>
          if c = CHR ''e'' \<or> c = CHR ''E'' then
            (case cs of
               [] \<Rightarrow> s
             | d # ds \<Rightarrow>
                 if d = CHR ''+'' \<or> d = CHR ''-'' then
                   (if takeWhile is_digit ds = [] then s else dropWhile is_digit ds)
                 else
                   (if takeWhile is_digit cs = [] then s else dropWhile is_digit cs))
          else s)"

definition StrDecimalLiteral_rest :: "string \<Rightarrow> string" where
  "StrDecimalLiteral_rest s =
     (let unsigned = (case s of
                        [] \<Rightarrow> []
                      | c # cs \<Rightarrow> if c = CHR ''-'' \<or> c = CHR ''+'' then cs else s)
      in if prefix ''Infinity'' unsigned then drop 8 unsigned
         else
           let intPart = takeWhile is_digit unsigned;
               afterInt = dropWhile is_digit unsigned;
               hasDot = (case afterInt of [] \<Rightarrow> False | c # _ \<Rightarrow> c = CHR ''.'');
               fracPart = (if hasDot then takeWhile is_digit (tl afterInt) else []);
               afterFrac = (if hasDot then dropWhile is_digit (tl afterInt) else afterInt)
           in if intPart = [] \<and> fracPart = [] then s else exponent_rest afterFrac)"

definition StringToNumber :: "string \<Rightarrow> jsnum" where
  "StringToNumber s =
     (let t = trim s
      in if t = [] then Fin 0
         else
           (case NonDecimalIntegerLiteral t of
              Some n \<Rightarrow> Fin (of_nat n)
            | None \<Rightarrow> if StrDecimalLiteral_rest t = [] then parseFloat t else NaN))"

fun ToNumber :: "host \<Rightarrow> json option \<Rightarrow> jsnum" where
  "ToNumber h None = NaN"
| "ToNumber h (Some JNull) = Fin 0"
| "ToNumber h (Some (JBool b)) = Fin (if b then 1 else 0)"
| "ToNumber h (Some (JNumber n)) = Fin n"
| "ToNumber h (Some (JString s)) = StringToNumber s"
| "ToNumber h (Some (JArray xs)) = StringToNumber (ToString h (JArray xs))"
| "ToNumber h (Some (JObject props)) = StringToNumber (ToString h (JObject props))"

text \<open>
  The parts of the results section that depend on the result. \<open>getRiskLevel\<close> and the
  arithmetic see \<open>result.default_probability\<close> as the Number their operators make of it.
\<close>

record result_view =
  prediction_class :: string
  prediction_text :: string
  classification_text :: string
  probability_text :: string
  risk_class :: string
  risk_text :: string
  bar_class :: string

definition render_result :: "host \<Rightarrow> json \<Rightarrow> result_view" where
  "render_result h r =
     (let prediction = get_field r ''prediction'';
          default_probability = ToNumber h (get_field r ''default_probability'')
      in \<lparr>prediction_class =
             (if prediction = Some (JNumber 1) then ''text-red-400'' else ''text-emerald-400''),
           prediction_text =
             (if prediction = Some (JNumber 1) then ''Default Risk'' else ''Safe Loan''),
           classification_text =
             ''Classification: '' @
             (if prediction = Some (JNumber 1) then ''High Risk (1)'' else ''Low Risk (0)''),
           probability_text = toFixed h (js_mul default_probability (Fin 100)) 1 @ ''%'',
           risk_class = ''text-sm font-medium '' @ color (getRiskLevel default_probability),
           risk_text = level (getRiskLevel default_probability) @ '' Risk Level'',
           bar_class =
             ''h-full rounded-full transition-all duration-1000 ease-out '' @
             risk_bar_gradient default_probability\<rparr>)"

text \<open>
  The results section: the error panel is rendered for a non-empty error string, the
  result panel for a truthy result.
\<close>

record results_section =
  error_panel :: "string option"
  result_panel :: "result_view option"

definition render :: "host \<Rightarrow> ui_state \<Rightarrow> results_section" where
  "render h s =
     \<lparr>error_panel = (case error s of None \<Rightarrow> None | Some e \<Rightarrow> if e = [] then None else Some e),
      result_panel = (if truthy (result s) then Some (render_result h (result s)) else None)\<rparr>"

section \<open>Concrete runs\<close>

text \<open>
  An engine, a starting state and an input for running the model on concrete values. The
  engine's formatting of fractions is reached by none of the runs in this theory and
  yields the empty text; its \<open>TypeError\<close> message is the one Firefox gives.
\<close>

definition sample_host :: host where
  "sample_host = \<lparr>Number_toString = (\<lambda>x. []), null_property_message = ''errorData is null''\<rparr>"

definition initial_state :: ui_state where
  "initial_state = \<lparr>loading = False, result = JNull, error = None\<rparr>"

definition sample_input :: string where
  "sample_input = ''0.5, 1.2, -0.8, 2e1,11,21,45,83,38,7,87,84,95,23,62,18,85,69,67,79,8,48,5,73,58,57,70,0,41,96,68,54,54,68,96,41,0,70,57,58,73,5,48,8,79,67''"

definition sample_features :: "jsnum list" where
  "sample_features = [Fin (1 / 2), Fin (6 / 5), Fin (- (4 / 5)), Fin 20, Fin 11, Fin 21, Fin 45, Fin 83, Fin 38, Fin 7, Fin 87, Fin 84, Fin 95, Fin 23, Fin 62, Fin 18, Fin 85, Fin 69, Fin 67, Fin 79, Fin 8, Fin 48, Fin 5, Fin 73, Fin 58, Fin 57, Fin 70, Fin 0, Fin 41, Fin 96, Fin 68, Fin 54, Fin 54, Fin 68, Fin 96, Fin 41, Fin 0, Fin 70, Fin 57, Fin 58, Fin 73, Fin 5, Fin 48, Fin 8, Fin 79, Fin 67]"

section \<open>Tokens and trimming\<close>

lemma comma_not_ws: "\<not> is_ws (CHR '','')"
  by (simp add: is_ws_def)

lemma split_comma_not_Nil: "split_comma s \<noteq> []"
  by (induction s) (auto split: list.splits)

lemma split_comma_no_comma: "CHR '','' \<notin> set s \<Longrightarrow> split_comma s = [s]"
  by (induction s) auto

lemma split_comma_append_left:
  "CHR '','' \<notin> set w \<Longrightarrow> split_comma (w @ s) = (w @ hd (split_comma s)) # tl (split_comma s)"
proof (induction w)
  case Nil
  then show ?case using split_comma_not_Nil [of s] by (cases "split_comma s") auto
next
  case (Cons c w)
  then show ?case by auto
qed

lemma split_comma_append_right:
  "CHR '','' \<notin> set w \<Longrightarrow>
   split_comma (s @ w) = butlast (split_comma s) @ [last (split_comma s) @ w]"
proof (induction s)
  case Nil
  then show ?case by (simp add: split_comma_no_comma)
next
  case (Cons c s)
  show ?case
  proof (cases "c = CHR '',''")
    case True
    then show ?thesis using Cons split_comma_not_Nil [of s] by simp
  next
    case False
    obtain t ts where ts: "split_comma s = t # ts"
      using split_comma_not_Nil [of s] by (cases "split_comma s") auto
    show ?thesis using False Cons ts by (cases ts) auto
  qed
qed

lemma ws_no_comma: "\<forall>c\<in>set w. is_ws c \<Longrightarrow> CHR '','' \<notin> set w"
  using comma_not_ws by blast

lemma trimEnd_all_ws: "\<forall>c\<in>set w. is_ws c \<Longrightarrow> trimEnd w = []"
  by (induction w) auto

lemma trimEnd_append_ws: "\<forall>c\<in>set w. is_ws c \<Longrightarrow> trimEnd (x @ w) = trimEnd x"
  by (induction x) (auto simp: trimEnd_all_ws Let_def)

lemma trimEnd_decomp: "\<exists>w. s = trimEnd s @ w \<and> (\<forall>c\<in>set w. is_ws c)"
proof (induction s)
  case Nil
  then show ?case by simp
next
  case (Cons c s)
  then obtain w where w: "s = trimEnd s @ w" "\<forall>c\<in>set w. is_ws c" by blast
  show ?case
  proof (cases "trimEnd s = [] \<and> is_ws c")
    case True
    then have "c # s = trimEnd (c # s) @ (c # w)" using w by (simp add: Let_def)
    moreover have "\<forall>d\<in>set (c # w). is_ws d" using True w by simp
    ultimately show ?thesis by blast
  next
    case False
    then have "c # s = trimEnd (c # s) @ w" using w by (auto simp: Let_def)
    then show ?thesis using w by blast
  qed
qed

lemma trim_ws_append: "\<forall>c\<in>set w. is_ws c \<Longrightarrow> trim (w @ x) = trim x"
  by (simp add: trim_def trimStart_def dropWhile_append2)

lemma trim_append_ws:
  assumes "\<forall>c\<in>set w. is_ws c"
  shows "trim (x @ w) = trim x"
proof (cases "\<forall>c\<in>set x. is_ws c")
  case True
  then have "dropWhile is_ws (x @ w) = []" "dropWhile is_ws x = []" using assms by auto
  then show ?thesis by (simp only: trim_def trimStart_def)
next
  case False
  then obtain c where "c \<in> set x" "\<not> is_ws c" by blast
  then have "dropWhile is_ws (x @ w) = dropWhile is_ws x @ w"
    by (rule dropWhile_append1)
  then show ?thesis using assms by (simp add: trim_def trimStart_def trimEnd_append_ws)
qed

lemma map_trim_split_trimStart:
  "map trim (split_comma (trimStart s)) = map trim (split_comma s)"
proof -
  let ?w = "takeWhile is_ws s"
  have ws: "\<forall>c\<in>set ?w. is_ws c" by (auto dest: set_takeWhileD)
  have "split_comma s = split_comma (?w @ trimStart s)" by (simp add: trimStart_def)
  also have "\<dots> = (?w @ hd (split_comma (trimStart s))) # tl (split_comma (trimStart s))"
    using ws by (intro split_comma_append_left ws_no_comma)
  finally have "map trim (split_comma s) =
      trim (hd (split_comma (trimStart s))) # map trim (tl (split_comma (trimStart s)))"
    using ws by (simp add: trim_ws_append)
  also have "\<dots> = map trim (split_comma (trimStart s))"
    using split_comma_not_Nil [of "trimStart s"] by (cases "split_comma (trimStart s)") auto
  finally show ?thesis by simp
qed

lemma map_trim_split_trimEnd:
  "map trim (split_comma (trimEnd s)) = map trim (split_comma s)"
proof -
  obtain w where w: "s = trimEnd s @ w" "\<forall>c\<in>set w. is_ws c"
    using trimEnd_decomp by blast
  let ?X = "split_comma (trimEnd s)"
  have "split_comma s = split_comma (trimEnd s @ w)" using w by simp
  also have "\<dots> = butlast ?X @ [last ?X @ w]"
    using w by (intro split_comma_append_right ws_no_comma)
  finally have "map trim (split_comma s) = map trim (butlast ?X) @ [trim (last ?X)]"
    using w by (simp add: trim_append_ws)
  also have "\<dots> = map trim (butlast ?X @ [last ?X])" by simp
  also have "\<dots> = map trim ?X" using split_comma_not_Nil [of "trimEnd s"] by simp
  finally show ?thesis by simp
qed

lemma map_trim_split_trim: "map trim (split_comma (trim s)) = map trim (split_comma s)"
  by (simp add: trim_def map_trim_split_trimEnd map_trim_split_trimStart)

lemma map_throwing_parse_item_cong:
  "map trim ts = map trim ts' \<Longrightarrow> map_throwing parse_item ts = map_throwing parse_item ts'"
proof (induction ts arbitrary: ts')
  case Nil
  then show ?case by simp
next
  case (Cons t ts)
  then obtain u us where u: "ts' = u # us" "trim t = trim u" "map trim ts = map trim us" by auto
  have "parse_item t = parse_item u" by (simp only: parse_item_def u(2))
  then show ?case using Cons.IH [of us] u by (simp split: sum.splits)
qed

lemma map_throwing_tokens:
  "map_throwing parse_item (split_comma (trim s)) = map_throwing parse_item (split_comma s)"
  by (rule map_throwing_parse_item_cong) (rule map_trim_split_trim)

lemma map_throwing_Inr_iff:
  "map_throwing parse_item ts = Inr v \<longleftrightarrow>
     (\<forall>t\<in>set ts. \<not> isNaN (parseFloat (trim t))) \<and> v = map (\<lambda>t. parseFloat (trim t)) ts"
proof (induction ts arbitrary: v)
  case Nil
  then show ?case by auto
next
  case (Cons t ts)
  show ?case
  proof (cases "isNaN (parseFloat (trim t))")
    case True
    then show ?thesis by (simp add: parse_item_def)
  next
    case False
    then show ?thesis using Cons [of "tl v"]
      by (cases v) (auto simp: parse_item_def Cons split: sum.splits)
  qed
qed

lemma map_throwing_Inl:
  "find (\<lambda>t. isNaN (parseFloat (trim t))) ts = Some t \<Longrightarrow>
   map_throwing parse_item ts = Inl (Error_obj (''Invalid number: '' @ trim t))"
proof (induction ts)
  case Nil
  then show ?case by simp
next
  case (Cons u ts)
  then show ?case by (cases "isNaN (parseFloat (trim u))") (auto simp: parse_item_def)
qed

lemma parseFloat_empty: "parseFloat [] = NaN"
  by (simp add: parseFloat_def trimStart_def)

lemma blank_tokens: "trim s = [] \<Longrightarrow> map trim (split_comma s) = [[]]"
  using map_trim_split_trim [of s] by (simp add: trim_def trimStart_def)

section \<open>Outcomes of parseFeatures and handlePredict\<close>

lemma digit_char_value: "d < 10 \<Longrightarrow> (of_char (digit_char d) :: nat) = 48 + d"
proof -
  assume "d < 10"
  then have "d = 0 \<or> d = 1 \<or> d = 2 \<or> d = 3 \<or> d = 4 \<or> d = 5 \<or> d = 6 \<or> d = 7 \<or> d = 8 \<or> d = 9"
    by arith
  then show ?thesis by (auto simp: digit_char_def)
qed

lemma digits_value_snoc:
  "digits_value (ds @ [c]) = 10 * digits_value ds + ((of_char c :: nat) - 48)"
  by (simp add: digits_value_def)

lemma digits_value_nat_toString: "digits_value (nat_toString n) = n"
proof (induction n rule: nat_toString.induct)
  case (1 n)
  show ?case
  proof (cases "n < 10")
    case True
    then show ?thesis
      by (subst nat_toString.simps) (simp add: digits_value_def digit_char_value)
  next
    case False
    then have "digits_value (nat_toString n) =
        10 * digits_value (nat_toString (n div 10)) + ((of_char (digit_char (n mod 10)) :: nat) - 48)"
      by (subst nat_toString.simps) (simp add: digits_value_snoc)
    also have "\<dots> = 10 * (n div 10) + n mod 10"
      using 1 False by (simp add: digit_char_value)
    finally show ?thesis by simp
  qed
qed

lemma parseFeatures_Some_iff:
  "parseFeatures s = Inr (Some v) \<longleftrightarrow>
     length (split_comma s) = 46 \<and>
     (\<forall>t\<in>set (split_comma s). \<not> isNaN (parseFloat (trim t))) \<and>
     v = map (\<lambda>t. parseFloat (trim t)) (split_comma s)"
proof (cases "trim s = []")
  case True
  then have "map trim (split_comma s) = [[]]" by (rule blank_tokens)
  then have "length (split_comma s) = 1" using arg_cong [of _ _ length] by fastforce
  moreover have "parseFeatures s = Inr None"
    using True by (simp add: parseFeatures_def parseFeatures_try_def)
  ultimately show ?thesis by simp
next
  case False
  show ?thesis
  proof (cases "map_throwing parse_item (split_comma s)")
    case (Inl e)
    then have "\<not> (\<forall>t\<in>set (split_comma s). \<not> isNaN (parseFloat (trim t)))"
      using map_throwing_Inr_iff [of "split_comma s"] by auto
    then show ?thesis using False Inl
      by (auto simp: parseFeatures_def parseFeatures_try_def map_throwing_tokens)
  next
    case (Inr ns)
    then have ns: "(\<forall>t\<in>set (split_comma s). \<not> isNaN (parseFloat (trim t)))"
      "ns = map (\<lambda>t. parseFloat (trim t)) (split_comma s)"
      using map_throwing_Inr_iff [of "split_comma s" ns] by auto
    then have "length ns = length (split_comma s)" by simp
    then show ?thesis using False Inr ns
      by (auto simp: parseFeatures_def parseFeatures_try_def map_throwing_tokens)
  qed
qed

lemma parseFeatures_blank: "trim s = [] \<Longrightarrow> parseFeatures s = Inr None"
  by (simp add: parseFeatures_def parseFeatures_try_def)

lemma parseFeatures_invalid:
  assumes "trim s \<noteq> []"
    and "find (\<lambda>t. isNaN (parseFloat (trim t))) (split_comma s) = Some t"
  shows "parseFeatures s = Inl (Error_obj (''Invalid number: '' @ trim t))"
  using assms map_throwing_Inl [OF assms(2)]
  by (simp add: parseFeatures_def parseFeatures_try_def map_throwing_tokens)

lemma valid_tokens_not_blank:
  assumes "\<forall>t\<in>set (split_comma s). \<not> isNaN (parseFloat (trim t))"
  shows "trim s \<noteq> []"
proof
  assume "trim s = []"
  then have m: "map trim (split_comma s) = [[]]" by (rule blank_tokens)
  then obtain t where "split_comma s = [t]" "trim t = []" by auto
  then show False using assms by (simp add: parseFloat_empty isNaN_def)
qed

lemma parseFeatures_count:
  assumes "\<forall>t\<in>set (split_comma s). \<not> isNaN (parseFloat (trim t))"
    and "length (split_comma s) \<noteq> 46"
  shows "parseFeatures s =
    Inl (Error_obj (''Expected 46 features, but got '' @ nat_toString (length (split_comma s))))"
proof -
  have "map_throwing parse_item (split_comma s) = Inr (map (\<lambda>t. parseFloat (trim t)) (split_comma s))"
    using assms(1) map_throwing_Inr_iff by blast
  then show ?thesis using assms(2) valid_tokens_not_blank [OF assms(1)]
    by (simp add: parseFeatures_def parseFeatures_try_def map_throwing_tokens)
qed

lemma parseFeatures_Inl_Error: "parseFeatures s = Inl err \<Longrightarrow> \<exists>m. err = Error_obj m"
  by (auto simp: parseFeatures_def split: sum.splits)

lemma handlePredict_throw:
  "parseFeatures inp = Inl (Error_obj m) \<Longrightarrow>
   handlePredict h inp net = [SetError None, SetResult JNull, SetError (Some m), SetLoading False]"
  by (simp add: handlePredict_def handlePredict_try_def)

lemma handlePredict_null:
  "parseFeatures inp = Inr None \<Longrightarrow>
   handlePredict h inp net =
     [SetError None, SetResult JNull,
      SetError (Some ''Please enter exactly 46 comma-separated numbers''), SetLoading False]"
  by (simp add: handlePredict_def handlePredict_try_def)

lemma handlePredict_not_parsed:
  assumes "\<forall>v. parseFeatures inp \<noteq> Inr (Some v)"
  shows "\<exists>m. handlePredict h inp net =
     [SetError None, SetResult JNull, SetError (Some m), SetLoading False]"
proof (cases "parseFeatures inp")
  case (Inl err)
  then show ?thesis using parseFeatures_Inl_Error [OF Inl] handlePredict_throw by blast
next
  case (Inr r)
  then have "r = None" using assms by (cases r) auto
  then show ?thesis using Inr handlePredict_null by blast
qed

lemma handlePredict_parsed:
  assumes "parseFeatures inp = Inr (Some v)"
  shows "\<exists>x. handlePredict h inp net =
           [SetError None, SetResult JNull, SetLoading True, Fetch predict_url v, x, SetLoading False] \<and>
         ((\<exists>data. net = Resolved (Ok_response (Inr data)) \<and> x = SetResult data) \<or>
          (\<exists>m. x = SetError (Some m) \<and> (\<forall>data. net \<noteq> Resolved (Ok_response (Inr data)))))"
  using assms
  by (auto simp: handlePredict_def handlePredict_try_def
      split: fetch_outcome.splits response.splits sum.splits)


lemma sample_tokens: "split_comma sample_input = [''0.5'', '' 1.2'', '' -0.8'', '' 2e1'', ''11'', ''21'', ''45'', ''83'', ''38'', ''7'', ''87'', ''84'', ''95'', ''23'', ''62'', ''18'', ''85'', ''69'', ''67'', ''79'', ''8'', ''48'', ''5'', ''73'', ''58'', ''57'', ''70'', ''0'', ''41'', ''96'', ''68'', ''54'', ''54'', ''68'', ''96'', ''41'', ''0'', ''70'', ''57'', ''58'', ''73'', ''5'', ''48'', ''8'', ''79'', ''67'']"
  unfolding sample_input_def by simp

lemma sample_values:
  "map (\<lambda>t. parseFloat (trim t)) (split_comma sample_input) = sample_features"
  unfolding sample_tokens sample_features_def
  by (simp add: trim_def parseFloat_def trimStart_def is_ws_def is_digit_def digits_value_def
      exponent_part_def scale10_def)

lemma sample_parse: "parseFeatures sample_input = Inr (Some sample_features)"
proof -
  have "length (split_comma sample_input) = 46" unfolding sample_tokens by simp
  moreover have "\<forall>t\<in>set (split_comma sample_input). \<not> isNaN (parseFloat (trim t))"
  proof -
    have "NaN \<notin> set sample_features" unfolding sample_features_def by simp
    then show ?thesis unfolding sample_values [symmetric] isNaN_def by (metis image_eqI set_map)
  qed
  ultimately show ?thesis using sample_values by (simp add: parseFeatures_Some_iff)
qed


lemma handlePredict_ok:
  "parseFeatures inp = Inr (Some v) \<Longrightarrow>
   handlePredict h inp (Resolved (Ok_response (Inr data))) =
     [SetError None, SetResult JNull, SetLoading True, Fetch predict_url v, SetResult data,
      SetLoading False]"
  by (simp add: handlePredict_def handlePredict_try_def)


lemma render_after_ok:
  "parseFeatures inp = Inr (Some v) \<Longrightarrow>
   render h (final_state s (handlePredict h inp (Resolved (Ok_response (Inr data))))) =
     \<lparr>error_panel = None,
      result_panel = (if truthy data then Some (render_result h data) else None)\<rparr>"
  by (simp add: handlePredict_ok final_state_def render_def)


text \<open>
  A token is rejected when \<open>parseFloat\<close> of its trimmed text is NaN. The message set for
  the first rejected token \<open>t\<close> of an input that is not blank names it.
\<close>

lemma rejected_token_message:
  assumes "find (\<lambda>t. isNaN (parseFloat (trim t))) (split_comma inputText) = Some t"
  shows "\<forall>v. parseFeatures inputText \<noteq> Inr (Some v)"
    and "handlePredict h inputText net =
           [SetError None, SetResult JNull,
            SetError (Some (if trim inputText = []
                            then ''Please enter exactly 46 comma-separated numbers''
                            else ''Invalid number: '' @ trim t)),
            SetLoading False]"
proof -
  have "t \<in> set (split_comma inputText)" "isNaN (parseFloat (trim t))"
    using assms by (auto simp: find_Some_iff)
  then show "\<forall>v. parseFeatures inputText \<noteq> Inr (Some v)"
    by (auto simp: parseFeatures_Some_iff)
  show "handlePredict h inputText net =
           [SetError None, SetResult JNull,
            SetError (Some (if trim inputText = []
                            then ''Please enter exactly 46 comma-separated numbers''
                            else ''Invalid number: '' @ trim t)),
            SetLoading False]"
  proof (cases "trim inputText = []")
    case True
    then show ?thesis using handlePredict_null [OF parseFeatures_blank [OF True]] by simp
  next
    case False
    then show ?thesis
      using handlePredict_throw [OF parseFeatures_invalid [OF False assms]] by simp
  qed
qed

section \<open>The claims\<close>

text \<open>
  Claim C1. An input whose 46 comma-separated tokens each parse, after trimming, to a
  number other than NaN makes \<open>parseFeatures\<close> return exactly the 46 parsed values in
  the order of the tokens; and \<open>parseFeatures\<close> returns a vector for no other input, so
  every vector it returns is that full one.
\<close>

theorem parseFeatures_all_or_nothing:
  "parseFeatures inputText = Inr (Some v) \<longleftrightarrow>
     length (split_comma inputText) = 46 \<and>
     (\<forall>t\<in>set (split_comma inputText). \<not> isNaN (parseFloat (trim t))) \<and>
     v = map (\<lambda>t. parseFloat (trim t)) (split_comma inputText)"
  by (rule parseFeatures_Some_iff)

text \<open>The sample input has 46 valid tokens and parses to the sample features.\<close>

theorem parseFeatures_all_or_nothing_witness:
  "length (split_comma sample_input) = 46 \<and>
   map (\<lambda>t. parseFloat (trim t)) (split_comma sample_input) = sample_features \<and>
   NaN \<notin> set sample_features \<and>
   parseFeatures sample_input = Inr (Some sample_features)"
proof -
  have len: "length (split_comma sample_input) = 46" unfolding sample_tokens by simp
  have nn: "NaN \<notin> set sample_features" unfolding sample_features_def by simp
  then have valid: "\<forall>t\<in>set (split_comma sample_input). \<not> isNaN (parseFloat (trim t))"
    unfolding sample_values [symmetric] isNaN_def by (metis image_eqI set_map)
  show ?thesis
    using parseFeatures_all_or_nothing [of sample_input sample_features] len valid sample_values nn
    by simp
qed

text \<open>
  Claim C2, amended. When every token of the input parses to a number and the number
  of tokens is not 46, \<open>parseFeatures\<close> throws, and \<open>handlePredict\<close> sets as the error,
  the text \<open>Expected 46 features, but got\<close> followed by the decimal digits of that number.
  An input that is empty or white space only is answered with \<open>null\<close> instead, and the
  error set is the fixed text \<open>Please enter exactly 46 comma-separated numbers\<close>.
\<close>

theorem count_error_states_count:
  "((\<forall>t\<in>set (split_comma inputText). \<not> isNaN (parseFloat (trim t))) \<and>
    length (split_comma inputText) \<noteq> 46 \<longrightarrow>
      parseFeatures inputText =
        Inl (Error_obj (''Expected 46 features, but got '' @ nat_toString (length (split_comma inputText)))) \<and>
      handlePredict h inputText net =
        [SetError None, SetResult JNull,
         SetError (Some (''Expected 46 features, but got '' @ nat_toString (length (split_comma inputText)))),
         SetLoading False] \<and>
      digits_value (nat_toString (length (split_comma inputText))) = length (split_comma inputText)) \<and>
   (trim inputText = [] \<longrightarrow>
      parseFeatures inputText = Inr None \<and>
      handlePredict h inputText net =
        [SetError None, SetResult JNull,
         SetError (Some ''Please enter exactly 46 comma-separated numbers''), SetLoading False])"
  using parseFeatures_count [of inputText] handlePredict_throw parseFeatures_blank [of inputText]
    handlePredict_null digits_value_nat_toString
  by auto

text \<open>Two tokens give the count 2; two blanks give the fixed text.\<close>

theorem count_error_states_count_witness:
  "map (\<lambda>t. parseFloat (trim t)) (split_comma ''1,2'') = [Fin 1, Fin 2] \<and>
   length (split_comma ''1,2'') \<noteq> 46 \<and>
   handlePredict sample_host ''1,2'' (Rejected (Error_obj ''Failed to fetch'')) =
     [SetError None, SetResult JNull, SetError (Some ''Expected 46 features, but got 2''),
      SetLoading False] \<and>
   trim ''  '' = [] \<and>
   handlePredict sample_host ''  '' (Rejected (Error_obj ''Failed to fetch'')) =
     [SetError None, SetResult JNull,
      SetError (Some ''Please enter exactly 46 comma-separated numbers''), SetLoading False]"
proof -
  have valid: "\<forall>t\<in>set (split_comma ''1,2''). \<not> isNaN (parseFloat (trim t))"
    by (simp add: trim_def parseFloat_def trimStart_def is_ws_def is_digit_def digits_value_def
        exponent_part_def scale10_def isNaN_def)
  have len: "length (split_comma ''1,2'') = 2" by simp
  have blank: "trim ''  '' = []" by (simp add: trim_def trimStart_def is_ws_def)
  have two: "nat_toString (Suc (Suc 0)) = ''2''" by (simp add: nat_toString.simps digit_char_def)
  have vals: "map (\<lambda>t. parseFloat (trim t)) (split_comma ''1,2'') = [Fin 1, Fin 2]"
    by (simp add: trim_def parseFloat_def trimStart_def is_ws_def is_digit_def digits_value_def
        exponent_part_def scale10_def)
  have "handlePredict sample_host ''1,2'' (Rejected (Error_obj ''Failed to fetch'')) =
     [SetError None, SetResult JNull, SetError (Some ''Expected 46 features, but got 2''),
      SetLoading False]"
    using count_error_states_count [of "''1,2''" sample_host "Rejected (Error_obj ''Failed to fetch'')"]
      valid
    by (simp add: len two)
  moreover have "handlePredict sample_host ''  '' (Rejected (Error_obj ''Failed to fetch'')) =
     [SetError None, SetResult JNull,
      SetError (Some ''Please enter exactly 46 comma-separated numbers''), SetLoading False]"
    using count_error_states_count [of "''  ''" sample_host "Rejected (Error_obj ''Failed to fetch'')"]
      blank
    by simp
  ultimately show ?thesis using vals blank by (simp add: len)
qed

text \<open>
  Claim C2 as stated fails at the empty input: its single token is not a number, so it
  holds zero numbers, yet the error shown is the fixed text, which has no digit 0 in it.
\<close>

theorem empty_input_counterexample:
  "split_comma [] = [[]] \<and> isNaN (parseFloat (trim [])) \<and>
   parseFeatures [] = Inr None \<and>
   handlePredict sample_host [] (Rejected (Error_obj ''Failed to fetch'')) =
     [SetError None, SetResult JNull,
      SetError (Some ''Please enter exactly 46 comma-separated numbers''), SetLoading False] \<and>
   nat_toString 0 = ''0'' \<and>
   CHR ''0'' \<notin> set ''Please enter exactly 46 comma-separated numbers''"
  by (simp add: trim_def trimStart_def parseFloat_def isNaN_def parseFeatures_def
      parseFeatures_try_def handlePredict_def handlePredict_try_def nat_toString.simps digit_char_def)

text \<open>
  Claim C3. The code departs from it at a token that starts with a number and goes on
  with other text: \<open>12abc\<close> is not a number, yet \<open>parseFloat\<close> reads its leading digits,
  the test \<open>isNaN\<close> lets the result pass, and the request goes out with 12 in the
  token's place. No error is set, so no message names the token.
\<close>

theorem trailing_text_accepted:
  "parseFloat (trim ''12abc'') = Fin 12 \<and>
   parseFeatures ''12abc, 1.2, -0.8, 2e1,11,21,45,83,38,7,87,84,95,23,62,18,85,69,67,79,8,48,5,73,58,57,70,0,41,96,68,54,54,68,96,41,0,70,57,58,73,5,48,8,79,67'' =
     Inr (Some [Fin 12, Fin (6 / 5), Fin (- (4 / 5)), Fin 20, Fin 11, Fin 21, Fin 45, Fin 83, Fin 38, Fin 7, Fin 87, Fin 84, Fin 95, Fin 23, Fin 62, Fin 18, Fin 85, Fin 69, Fin 67, Fin 79, Fin 8, Fin 48, Fin 5, Fin 73, Fin 58, Fin 57, Fin 70, Fin 0, Fin 41, Fin 96, Fin 68, Fin 54, Fin 54, Fin 68, Fin 96, Fin 41, Fin 0, Fin 70, Fin 57, Fin 58, Fin 73, Fin 5, Fin 48, Fin 8, Fin 79, Fin 67]) \<and>
   handlePredict sample_host ''12abc, 1.2, -0.8, 2e1,11,21,45,83,38,7,87,84,95,23,62,18,85,69,67,79,8,48,5,73,58,57,70,0,41,96,68,54,54,68,96,41,0,70,57,58,73,5,48,8,79,67''
       (Resolved (Ok_response (Inr (PredictionResult 0 (12 / 100))))) =
     [SetError None, SetResult JNull, SetLoading True,
      Fetch predict_url [Fin 12, Fin (6 / 5), Fin (- (4 / 5)), Fin 20, Fin 11, Fin 21, Fin 45, Fin 83, Fin 38, Fin 7, Fin 87, Fin 84, Fin 95, Fin 23, Fin 62, Fin 18, Fin 85, Fin 69, Fin 67, Fin 79, Fin 8, Fin 48, Fin 5, Fin 73, Fin 58, Fin 57, Fin 70, Fin 0, Fin 41, Fin 96, Fin 68, Fin 54, Fin 54, Fin 68, Fin 96, Fin 41, Fin 0, Fin 70, Fin 57, Fin 58, Fin 73, Fin 5, Fin 48, Fin 8, Fin 79, Fin 67],
      SetResult (PredictionResult 0 (12 / 100)), SetLoading False]"
proof -
  have p: "parseFeatures ''12abc, 1.2, -0.8, 2e1,11,21,45,83,38,7,87,84,95,23,62,18,85,69,67,79,8,48,5,73,58,57,70,0,41,96,68,54,54,68,96,41,0,70,57,58,73,5,48,8,79,67'' =
     Inr (Some [Fin 12, Fin (6 / 5), Fin (- (4 / 5)), Fin 20, Fin 11, Fin 21, Fin 45, Fin 83, Fin 38, Fin 7, Fin 87, Fin 84, Fin 95, Fin 23, Fin 62, Fin 18, Fin 85, Fin 69, Fin 67, Fin 79, Fin 8, Fin 48, Fin 5, Fin 73, Fin 58, Fin 57, Fin 70, Fin 0, Fin 41, Fin 96, Fin 68, Fin 54, Fin 54, Fin 68, Fin 96, Fin 41, Fin 0, Fin 70, Fin 57, Fin 58, Fin 73, Fin 5, Fin 48, Fin 8, Fin 79, Fin 67])"
    by (simp add: parseFeatures_def parseFeatures_try_def parse_item_def trim_def isNaN_def
        parseFloat_def trimStart_def is_ws_def is_digit_def digits_value_def exponent_part_def
        scale10_def)
  have "parseFloat (trim ''12abc'') = Fin 12"
    by (simp add: trim_def parseFloat_def trimStart_def is_ws_def is_digit_def digits_value_def
        exponent_part_def scale10_def)
  then show ?thesis using p handlePredict_ok [OF p] by simp
qed

text \<open>
  Claim C4, amended. Every vector \<open>parseFeatures\<close> returns has length 46 and holds no
  NaN. (It may hold an infinity: see the run below.)
\<close>

theorem parseFeatures_vector_invariant:
  "parseFeatures inputText = Inr (Some v) \<Longrightarrow> length v = 46 \<and> (\<forall>x\<in>set v. \<not> isNaN x)"
  by (auto simp: parseFeatures_Some_iff)

text \<open>The sample features are such a vector.\<close>

theorem parseFeatures_vector_invariant_witness:
  "parseFeatures sample_input = Inr (Some sample_features) \<and>
   length sample_features = 46 \<and> NaN \<notin> set sample_features"
  using parseFeatures_vector_invariant [OF sample_parse] sample_parse
  by (auto simp: isNaN_def)

text \<open>
  Claim C4 as stated fails: the token \<open>Infinity\<close> parses to the Number Infinity, which
  is not NaN, so a vector holding it is returned, and it is not finite.
\<close>

theorem infinity_counterexample:
  "parseFeatures ''Infinity, 1.2, -0.8, 2e1,11,21,45,83,38,7,87,84,95,23,62,18,85,69,67,79,8,48,5,73,58,57,70,0,41,96,68,54,54,68,96,41,0,70,57,58,73,5,48,8,79,67'' =
     Inr (Some [Infinity, Fin (6 / 5), Fin (- (4 / 5)), Fin 20, Fin 11, Fin 21, Fin 45, Fin 83, Fin 38, Fin 7, Fin 87, Fin 84, Fin 95, Fin 23, Fin 62, Fin 18, Fin 85, Fin 69, Fin 67, Fin 79, Fin 8, Fin 48, Fin 5, Fin 73, Fin 58, Fin 57, Fin 70, Fin 0, Fin 41, Fin 96, Fin 68, Fin 54, Fin 54, Fin 68, Fin 96, Fin 41, Fin 0, Fin 70, Fin 57, Fin 58, Fin 73, Fin 5, Fin 48, Fin 8, Fin 79, Fin 67]) \<and>
   \<not> isFinite Infinity"
  by (simp add: parseFeatures_def parseFeatures_try_def parse_item_def trim_def isNaN_def
      parseFloat_def trimStart_def is_ws_def is_digit_def digits_value_def exponent_part_def
      scale10_def)

text \<open>
  Claim C5, amended. Every submit first clears the error and the result. The input is
  parsed before \<open>loading\<close> is touched: when parsing gives no vector, the only further
  calls set the error and then \<open>loading\<close> to false, so \<open>loading\<close> is never set to true;
  when parsing gives a vector, \<open>loading\<close> is set to true with error and result both
  clear, the request is issued once, and then either the result is set to the body of
  an OK response as it was read, or else the error is set, before \<open>loading\<close> is set to
  false. Every path ends not loading and never with both a result and an error; it
  ends with neither only when the body of an OK response was \<open>null\<close>.
\<close>

theorem handlePredict_transitions:
  "take 2 (handlePredict h inp net) = [SetError None, SetResult JNull] \<and>
   ((\<forall>v. parseFeatures inp \<noteq> Inr (Some v)) \<longrightarrow>
      (\<exists>m. handlePredict h inp net =
             [SetError None, SetResult JNull, SetError (Some m), SetLoading False]) \<and>
      map loading (states_of s (handlePredict h inp net)) =
        [loading s, loading s, loading s, loading s, False]) \<and>
   (\<forall>v. parseFeatures inp = Inr (Some v) \<longrightarrow>
      (\<exists>x. handlePredict h inp net =
             [SetError None, SetResult JNull, SetLoading True, Fetch predict_url v, x,
              SetLoading False] \<and>
           ((\<exists>data. net = Resolved (Ok_response (Inr data)) \<and> x = SetResult data) \<or>
            (\<exists>m. x = SetError (Some m) \<and> (\<forall>data. net \<noteq> Resolved (Ok_response (Inr data)))))) \<and>
      states_of s (handlePredict h inp net) ! 3 = s\<lparr>loading := True, result := JNull, error := None\<rparr> \<and>
      map loading (states_of s (handlePredict h inp net)) =
        [loading s, loading s, loading s, True, True, True, False]) \<and>
   \<not> loading (final_state s (handlePredict h inp net)) \<and>
   \<not> (result (final_state s (handlePredict h inp net)) \<noteq> JNull \<and>
      error (final_state s (handlePredict h inp net)) \<noteq> None) \<and>
   ((result (final_state s (handlePredict h inp net)) = JNull \<and>
     error (final_state s (handlePredict h inp net)) = None) \<longleftrightarrow>
    ((\<exists>v. parseFeatures inp = Inr (Some v)) \<and> net = Resolved (Ok_response (Inr JNull))))"
proof -
  let ?f = "final_state s (handlePredict h inp net)"
  have a: "take 2 (handlePredict h inp net) = [SetError None, SetResult JNull]"
    by (simp add: handlePredict_def)
  have b: "(\<exists>m. handlePredict h inp net =
             [SetError None, SetResult JNull, SetError (Some m), SetLoading False]) \<and>
      map loading (states_of s (handlePredict h inp net)) =
        [loading s, loading s, loading s, loading s, False] \<and>
      \<not> loading ?f \<and> result ?f = JNull \<and> error ?f \<noteq> None"
    if np: "\<forall>v. parseFeatures inp \<noteq> Inr (Some v)"
  proof -
    obtain m where "handlePredict h inp net =
        [SetError None, SetResult JNull, SetError (Some m), SetLoading False]"
      using handlePredict_not_parsed [OF np] by blast
    then show ?thesis by (simp add: final_state_def)
  qed
  have c: "(\<exists>x. handlePredict h inp net =
             [SetError None, SetResult JNull, SetLoading True, Fetch predict_url v, x,
              SetLoading False] \<and>
           ((\<exists>data. net = Resolved (Ok_response (Inr data)) \<and> x = SetResult data) \<or>
            (\<exists>m. x = SetError (Some m) \<and> (\<forall>data. net \<noteq> Resolved (Ok_response (Inr data)))))) \<and>
      states_of s (handlePredict h inp net) ! 3 = s\<lparr>loading := True, result := JNull, error := None\<rparr> \<and>
      map loading (states_of s (handlePredict h inp net)) =
        [loading s, loading s, loading s, True, True, True, False] \<and>
      \<not> loading ?f \<and>
      \<not> (result ?f \<noteq> JNull \<and> error ?f \<noteq> None) \<and>
      ((result ?f = JNull \<and> error ?f = None) \<longleftrightarrow> net = Resolved (Ok_response (Inr JNull)))"
    if pv: "parseFeatures inp = Inr (Some v)" for v
  proof -
    obtain x where x: "handlePredict h inp net =
        [SetError None, SetResult JNull, SetLoading True, Fetch predict_url v, x, SetLoading False]"
      "(\<exists>data. net = Resolved (Ok_response (Inr data)) \<and> x = SetResult data) \<or>
       (\<exists>m. x = SetError (Some m) \<and> (\<forall>data. net \<noteq> Resolved (Ok_response (Inr data))))"
      using handlePredict_parsed [OF pv] by blast
    then show ?thesis by (auto simp: final_state_def eval_nat_numeral)
  qed
  show ?thesis
  proof (cases "\<exists>v. parseFeatures inp = Inr (Some v)")
    case True
    then obtain v where v: "parseFeatures inp = Inr (Some v)" by blast
    then have nb: "\<not> (\<forall>v. parseFeatures inp \<noteq> Inr (Some v))" by blast
    show ?thesis using a c [OF v] v nb by auto
  next
    case False
    then have np: "\<forall>v. parseFeatures inp \<noteq> Inr (Some v)" by blast
    show ?thesis using a b [OF np] np by auto
  qed
qed

text \<open>A failing input, and the sample input with a rejected request and with a body.\<close>

theorem handlePredict_transitions_witness:
  "(\<forall>v. parseFeatures ''abc'' \<noteq> Inr (Some v)) \<and>
   map loading (states_of initial_state
      (handlePredict sample_host ''abc'' (Rejected (Error_obj ''Failed to fetch'')))) =
     [False, False, False, False, False] \<and>
   parseFeatures sample_input = Inr (Some sample_features) \<and>
   map loading (states_of initial_state
      (handlePredict sample_host sample_input (Rejected (Error_obj ''Failed to fetch'')))) =
     [False, False, False, True, True, True, False] \<and>
   handlePredict sample_host sample_input
       (Resolved (Ok_response (Inr (PredictionResult 1 (82 / 100))))) =
     [SetError None, SetResult JNull, SetLoading True, Fetch predict_url sample_features,
      SetResult (PredictionResult 1 (82 / 100)), SetLoading False]"
proof -
  have p: "parseFeatures ''abc'' = Inl (Error_obj ''Invalid number: abc'')"
    by (simp add: parseFeatures_def parseFeatures_try_def parse_item_def trim_def isNaN_def
      parseFloat_def trimStart_def is_ws_def is_digit_def)
  then have n: "\<forall>v. parseFeatures ''abc'' \<noteq> Inr (Some v)" by simp
  have "map loading (states_of initial_state
      (handlePredict sample_host ''abc'' (Rejected (Error_obj ''Failed to fetch'')))) =
     [False, False, False, False, False]"
    using handlePredict_transitions [of sample_host "''abc''"
        "Rejected (Error_obj ''Failed to fetch'')" initial_state] n
    by (simp add: initial_state_def)
  moreover have "map loading (states_of initial_state
      (handlePredict sample_host sample_input (Rejected (Error_obj ''Failed to fetch'')))) =
     [False, False, False, True, True, True, False]"
    using handlePredict_transitions [of sample_host sample_input
        "Rejected (Error_obj ''Failed to fetch'')" initial_state] sample_parse
    by (simp add: initial_state_def)
  moreover have "handlePredict sample_host sample_input
       (Resolved (Ok_response (Inr (PredictionResult 1 (82 / 100))))) =
     [SetError None, SetResult JNull, SetLoading True, Fetch predict_url sample_features,
      SetResult (PredictionResult 1 (82 / 100)), SetLoading False]"
    using handlePredict_transitions [of sample_host sample_input
        "Resolved (Ok_response (Inr (PredictionResult 1 (82 / 100))))" initial_state] sample_parse
    by auto
  ultimately show ?thesis using n sample_parse by simp
qed

text \<open>
  Claim C5 as stated fails: for the input \<open>abc\<close> parsing fails, and no state of the
  submission has \<open>loading\<close> true.
\<close>

theorem loading_skipped_counterexample:
  "parseFeatures ''abc'' = Inl (Error_obj ''Invalid number: abc'') \<and>
   handlePredict sample_host ''abc'' (Rejected (Error_obj ''Failed to fetch'')) =
     [SetError None, SetResult JNull, SetError (Some ''Invalid number: abc''), SetLoading False] \<and>
   map loading (states_of initial_state
      (handlePredict sample_host ''abc'' (Rejected (Error_obj ''Failed to fetch'')))) =
     [False, False, False, False, False]"
  by (simp add: parseFeatures_def parseFeatures_try_def parse_item_def trim_def isNaN_def
      parseFloat_def trimStart_def is_ws_def is_digit_def handlePredict_def handlePredict_try_def
      initial_state_def)

text \<open>
  Claim C6. When a token of the input does not parse to a number, or the number of
  tokens is not 46, \<open>handlePredict\<close> issues no request: after the two resets it sets
  the error and then \<open>loading\<close> to false, whatever the network would have answered.
\<close>

theorem no_fetch_on_invalid_input:
  assumes "(\<exists>t\<in>set (split_comma inp). isNaN (parseFloat (trim t))) \<or> length (split_comma inp) \<noteq> 46"
  shows "\<not> list_ex is_fetch (handlePredict h inp net) \<and>
         (\<exists>m. handlePredict h inp net =
                [SetError None, SetResult JNull, SetError (Some m), SetLoading False] \<and>
              error (final_state s (handlePredict h inp net)) = Some m)"
proof -
  have "\<forall>v. parseFeatures inp \<noteq> Inr (Some v)"
    using assms by (auto simp: parseFeatures_Some_iff)
  then obtain m where "handlePredict h inp net =
      [SetError None, SetResult JNull, SetError (Some m), SetLoading False]"
    using handlePredict_not_parsed by blast
  then show ?thesis by (simp add: is_fetch_def final_state_def)
qed

text \<open>A wrong count and a token that is not a number.\<close>

theorem no_fetch_on_invalid_input_witness:
  "length (split_comma ''1,2,3'') \<noteq> 46 \<and>
   \<not> list_ex is_fetch (handlePredict sample_host ''1,2,3'' (Resolved (Ok_response (Inr (PredictionResult 1 (1 / 2)))))) \<and>
   (\<exists>t\<in>set (split_comma ''7,seven''). isNaN (parseFloat (trim t))) \<and>
   \<not> list_ex is_fetch (handlePredict sample_host ''7,seven'' (Resolved (Ok_response (Inr (PredictionResult 1 (1 / 2))))))"
proof -
  have l: "length (split_comma ''1,2,3'') \<noteq> 46" by simp
  have t: "\<exists>t\<in>set (split_comma ''7,seven''). isNaN (parseFloat (trim t))"
    by (simp add: trim_def isNaN_def parseFloat_def trimStart_def is_ws_def is_digit_def)
  show ?thesis
    using no_fetch_on_invalid_input [of "''1,2,3''" sample_host _ initial_state] l
      no_fetch_on_invalid_input [of "''7,seven''" sample_host _ initial_state] t
    by blast
qed

text \<open>
  Claim C7. \<open>getRiskLevel\<close> gives the label Low for a probability below 0.3, Medium
  from 0.3 up to but not including 0.7, and High from 0.7 on.
\<close>

theorem getRiskLevel_thresholds:
  "(js_lt p (Fin (3 / 10)) \<longrightarrow> level (getRiskLevel p) = ''Low'') \<and>
   (js_le (Fin (3 / 10)) p \<and> js_lt p (Fin (7 / 10)) \<longrightarrow> level (getRiskLevel p) = ''Medium'') \<and>
   (js_ge p (Fin (7 / 10)) \<longrightarrow> level (getRiskLevel p) = ''High'') \<and>
   (\<forall>r. level (getRiskLevel (Fin r)) =
          (if r < 3 / 10 then ''Low'' else if r < 7 / 10 then ''Medium'' else ''High''))"
  by (cases p) (auto simp: getRiskLevel_def js_le_def js_ge_def isNaN_def)

text \<open>One probability in each tier.\<close>

theorem getRiskLevel_thresholds_witness:
  "js_lt (Fin (1 / 10)) (Fin (3 / 10)) \<and> level (getRiskLevel (Fin (1 / 10))) = ''Low'' \<and>
   js_le (Fin (3 / 10)) (Fin (1 / 2)) \<and> js_lt (Fin (1 / 2)) (Fin (7 / 10)) \<and>
   level (getRiskLevel (Fin (1 / 2))) = ''Medium'' \<and>
   js_ge (Fin (9 / 10)) (Fin (7 / 10)) \<and> level (getRiskLevel (Fin (9 / 10))) = ''High''"
  using getRiskLevel_thresholds [of "Fin (1 / 10)"] getRiskLevel_thresholds [of "Fin (1 / 2)"]
    getRiskLevel_thresholds [of "Fin (9 / 10)"]
  by (simp add: js_le_def js_ge_def isNaN_def)

text \<open>
  Claim C8. After a submission whose input parses, the successful response with
  prediction 1 and probability 0.82 is rendered as \<open>Default Risk\<close>, \<open>82.0%\<close> and the
  red classes of the high tier; the one with prediction 0 and probability 0.12 as
  \<open>Safe Loan\<close>, \<open>12.0%\<close> and the emerald classes of the low tier.
\<close>

theorem sample_responses_rendered:
  assumes "parseFeatures inp = Inr (Some v)"
  shows
    "render h (final_state s (handlePredict h inp
        (Resolved (Ok_response (Inr (PredictionResult 1 (82 / 100))))))) =
       \<lparr>error_panel = None,
        result_panel = Some
          \<lparr>prediction_class = ''text-red-400'',
           prediction_text = ''Default Risk'',
           classification_text = ''Classification: High Risk (1)'',
           probability_text = ''82.0%'',
           risk_class = ''text-sm font-medium text-red-600'',
           risk_text = ''High Risk Level'',
           bar_class = ''h-full rounded-full transition-all duration-1000 ease-out bg-gradient-to-r from-red-500 to-red-600''\<rparr>\<rparr> \<and>
     render h (final_state s (handlePredict h inp
        (Resolved (Ok_response (Inr (PredictionResult 0 (12 / 100))))))) =
       \<lparr>error_panel = None,
        result_panel = Some
          \<lparr>prediction_class = ''text-emerald-400'',
           prediction_text = ''Safe Loan'',
           classification_text = ''Classification: Low Risk (0)'',
           probability_text = ''12.0%'',
           risk_class = ''text-sm font-medium text-emerald-600'',
           risk_text = ''Low Risk Level'',
           bar_class = ''h-full rounded-full transition-all duration-1000 ease-out bg-gradient-to-r from-emerald-500 to-emerald-600''\<rparr>\<rparr>"
proof -
  have p82: "toFixed h (js_mul (Fin (82 / 100)) (Fin 100)) 1 = ''82.0''" by code_simp
  have p12: "toFixed h (js_mul (Fin (12 / 100)) (Fin 100)) 1 = ''12.0''" by code_simp
  have d82: "ToNumber h (get_field (PredictionResult 1 (82 / 100)) ''default_probability'') =
      Fin (82 / 100)"
    by (simp add: PredictionResult_def)
  have d12: "ToNumber h (get_field (PredictionResult 0 (12 / 100)) ''default_probability'') =
      Fin (12 / 100)"
    by (simp add: PredictionResult_def)
  have f1: "get_field (PredictionResult 1 (82 / 100)) ''prediction'' = Some (JNumber 1)"
    by (simp add: PredictionResult_def)
  have f0: "get_field (PredictionResult 0 (12 / 100)) ''prediction'' = Some (JNumber 0)"
    by (simp add: PredictionResult_def)
  have hi: "render_result h (PredictionResult 1 (82 / 100)) =
      \<lparr>prediction_class = ''text-red-400'',
           prediction_text = ''Default Risk'',
           classification_text = ''Classification: High Risk (1)'',
           probability_text = ''82.0%'',
           risk_class = ''text-sm font-medium text-red-600'',
           risk_text = ''High Risk Level'',
           bar_class = ''h-full rounded-full transition-all duration-1000 ease-out bg-gradient-to-r from-red-500 to-red-600''\<rparr>"
    by (simp only: render_result_def Let_def d82 f1 p82)
      (simp add: getRiskLevel_def risk_bar_gradient_def js_gt_def)
  have lo: "render_result h (PredictionResult 0 (12 / 100)) =
      \<lparr>prediction_class = ''text-emerald-400'',
           prediction_text = ''Safe Loan'',
           classification_text = ''Classification: Low Risk (0)'',
           probability_text = ''12.0%'',
           risk_class = ''text-sm font-medium text-emerald-600'',
           risk_text = ''Low Risk Level'',
           bar_class = ''h-full rounded-full transition-all duration-1000 ease-out bg-gradient-to-r from-emerald-500 to-emerald-600''\<rparr>"
    by (simp only: render_result_def Let_def d12 f0 p12)
      (simp add: getRiskLevel_def risk_bar_gradient_def js_gt_def)
  show ?thesis
    unfolding render_after_ok [OF assms] hi lo by (simp add: PredictionResult_def)
qed

text \<open>The two responses after the sample input.\<close>

theorem sample_responses_rendered_witness:
  "parseFeatures sample_input = Inr (Some sample_features) \<and>
   map_option prediction_text (result_panel (render sample_host (final_state initial_state
     (handlePredict sample_host sample_input
        (Resolved (Ok_response (Inr (PredictionResult 1 (82 / 100))))))))) =
     Some ''Default Risk'' \<and>
   map_option probability_text (result_panel (render sample_host (final_state initial_state
     (handlePredict sample_host sample_input
        (Resolved (Ok_response (Inr (PredictionResult 1 (82 / 100))))))))) =
     Some ''82.0%'' \<and>
   map_option prediction_text (result_panel (render sample_host (final_state initial_state
     (handlePredict sample_host sample_input
        (Resolved (Ok_response (Inr (PredictionResult 0 (12 / 100))))))))) =
     Some ''Safe Loan''"
  using sample_responses_rendered [OF sample_parse, of sample_host initial_state] sample_parse
  by simp




text \<open>
  Claim C10. For a finite probability the label of \<open>getRiskLevel\<close> and the gradient
  of the risk bar name the same tier exactly when the probability is neither 0.3 nor
  0.7; at 0.3 the label is Medium and the bar emerald, at 0.7 the label is High and
  the bar amber.
\<close>

theorem label_and_bar_agreement:
  "((level (getRiskLevel (Fin r)) = ''Low'' \<and>
       risk_bar_gradient (Fin r) = ''bg-gradient-to-r from-emerald-500 to-emerald-600'' \<or>
     level (getRiskLevel (Fin r)) = ''Medium'' \<and>
       risk_bar_gradient (Fin r) = ''bg-gradient-to-r from-amber-500 to-amber-600'' \<or>
     level (getRiskLevel (Fin r)) = ''High'' \<and>
       risk_bar_gradient (Fin r) = ''bg-gradient-to-r from-red-500 to-red-600'')
    \<longleftrightarrow> r \<noteq> 3 / 10 \<and> r \<noteq> 7 / 10) \<and>
   level (getRiskLevel (Fin (3 / 10))) = ''Medium'' \<and>
   risk_bar_gradient (Fin (3 / 10)) = ''bg-gradient-to-r from-emerald-500 to-emerald-600'' \<and>
   level (getRiskLevel (Fin (7 / 10))) = ''High'' \<and>
   risk_bar_gradient (Fin (7 / 10)) = ''bg-gradient-to-r from-amber-500 to-amber-600''"
  by (auto simp: getRiskLevel_def risk_bar_gradient_def js_gt_def)

text \<open>At 0.5 both are in the middle tier.\<close>

theorem label_and_bar_agreement_witness:
  "level (getRiskLevel (Fin (1 / 2))) = ''Medium'' \<and>
   risk_bar_gradient (Fin (1 / 2)) = ''bg-gradient-to-r from-amber-500 to-amber-600'' \<and>
   (1 / 2 :: rat) \<noteq> 3 / 10 \<and> (1 / 2 :: rat) \<noteq> 7 / 10"
  using label_and_bar_agreement [of "1 / 2"] by (simp add: getRiskLevel_def)

end
